theory Spec2Isabelle
  imports Complex_Main "HOL-Library.Sublist"
begin

section \<open>Python strings\<close>

text \<open>
  A Python \<open>str\<close> is a sequence of Unicode code points, so it is modelled as a list of
  natural numbers (one per code point) rather than as a list of 8-bit characters.
  \<open>str\<close> turns an ASCII literal of the source into that representation.
\<close>

type_synonym pystr = "nat list"

definition str :: "string \<Rightarrow> pystr" where
  "str s = map of_char s"

text \<open>
  \<open>str.isspace\<close> for one code point: the code points whose general category is \<open>Zs\<close> or
  whose bidirectional class is \<open>WS\<close>, \<open>B\<close> or \<open>S\<close>. This is the set \<open>str.strip()\<close> removes.
\<close>

definition isspace :: "nat \<Rightarrow> bool" where
  "isspace c \<longleftrightarrow>
     (0x09 \<le> c \<and> c \<le> 0x0D) \<or> (0x1C \<le> c \<and> c \<le> 0x20) \<or> c = 0x85 \<or> c = 0xA0 \<or>
     c = 0x1680 \<or> (0x2000 \<le> c \<and> c \<le> 0x200A) \<or> c = 0x2028 \<or> c = 0x2029 \<or>
     c = 0x202F \<or> c = 0x205F \<or> c = 0x3000"

text \<open>\<open>s.strip()\<close>: leading and trailing white space removed.\<close>

definition strip :: "pystr \<Rightarrow> pystr" where
  "strip s = rev (dropWhile isspace (rev (dropWhile isspace s)))"

text \<open>
  \<open>s.lower()\<close>. The model is exact on every code point whose lower-case form contains an
  ASCII letter: \<open>A\<close> to \<open>Z\<close>, U+0130 (which becomes \<open>i\<close> followed by U+0307) and U+212A
  (the Kelvin sign, which becomes \<open>k\<close>). Every other cased code point is mapped by Python
  to code points outside ASCII; the model leaves it in place. The only use of \<open>lower\<close> in
  the program is the test whether the ASCII word \<open>japanese\<close> occurs in the result, and
  that test cannot tell the two apart.
\<close>

definition lower_cp :: "nat \<Rightarrow> pystr" where
  "lower_cp c =
     (if 0x41 \<le> c \<and> c \<le> 0x5A then [c + 0x20]
      else if c = 0x130 then [0x69, 0x307]
      else if c = 0x212A then [0x6B]
      else [c])"

definition lower :: "pystr \<Rightarrow> pystr" where
  "lower s = concat (map lower_cp s)"

text \<open>\<open>s.startswith(p)\<close>, \<open>s.endswith(p)\<close> and \<open>p in s\<close> on strings.\<close>

definition startswith :: "pystr \<Rightarrow> pystr \<Rightarrow> bool" where
  "startswith s p = prefix p s"

definition endswith :: "pystr \<Rightarrow> pystr \<Rightarrow> bool" where
  "endswith s p = suffix p s"

definition contains :: "pystr \<Rightarrow> pystr \<Rightarrow> bool" where
  "contains p s = sublist p s"


section \<open>Data\<close>

text \<open>
  The two source files, \<open>cloud_function/main.py\<close> and
  \<open>scripts/fetch_japanese_transcript.py\<close>, define the same function
  \<open>fetch_japanese_transcript\<close>. They differ in the \<open>source\<close> tag of the result and in the
  \<open>error_type\<close> key, which only the cloud function adds in its last handler.
\<close>

datatype deployment = Cloud_function | Script

text \<open>
  The exceptions the function distinguishes: the two classes of the transcript library it
  names, and any other subclass of \<open>Exception\<close>, with \<open>type(e).__name__\<close> and \<open>str(e)\<close>.
  \<open>NoTranscriptFound\<close> carries \<open>str(e)\<close>.
\<close>

datatype exception =
  TranscriptsDisabled
| NoTranscriptFound pystr
| Other_exception pystr pystr

text \<open>
  The three fields of one snippet of a fetched transcript. The numbers are of a type \<open>'n\<close>
  with an addition; \<open>float(x)\<close> on a value that already is a number of that type is the
  identity.
\<close>

record 'n snippet =
  start :: 'n
  duration :: 'n
  "text" :: pystr

text \<open>
  A snippet as \<open>fetch()\<close> delivers it. The library whose \<open>list\<close> and \<open>fetch\<close> methods both
  files call yields objects of a class of its own, with the fields as attributes; the
  class name is kept, since Python puts it into the message of a \<open>TypeError\<close>. A dictionary
  with the three keys is the other shape the two files provide for.
\<close>

datatype 'n fetched_snippet =
  Snippet_object pystr "'n snippet"
| Snippet_dict "'n snippet"

text \<open>The fields a delivered snippet holds, whatever its shape.\<close>

fun snippet_payload :: "'n fetched_snippet \<Rightarrow> 'n snippet" where
  "snippet_payload (Snippet_object class_name payload) = payload"
| "snippet_payload (Snippet_dict payload) = payload"

text \<open>
  The dictionary \<open>transcript_info\<close>, and a transcript object of the library: the same four
  attributes and the outcome of its method \<open>fetch()\<close>.
\<close>

record transcript_info =
  language :: pystr
  language_code :: pystr
  is_generated :: bool
  is_translatable :: bool

record 'n transcript = transcript_info +
  fetch :: "exception + 'n fetched_snippet list"

text \<open>An element of \<open>japanese_transcripts\<close>.\<close>

record 'n japanese_transcript =
  transcript :: "'n transcript"
  info :: transcript_info

text \<open>An element of \<open>segments\<close>, with the keys \<open>start\<close>, \<open>duration\<close>, \<open>end\<close>, \<open>text\<close>.\<close>

record 'n segment =
  seg_start :: 'n
  seg_duration :: 'n
  seg_end :: 'n
  seg_text :: pystr

text \<open>\<open>totalDuration\<close> is a float taken from a segment, or the integer literal \<open>0\<close>.\<close>

datatype 'n number = PyInt int | PyFloat 'n

text \<open>
  The dictionary the function returns. A key that a return statement does not write is
  \<open>None\<close>. The key \<open>language\<close> is the field \<open>res_language\<close>.
\<close>

record 'n result =
  available :: bool
  videoId :: pystr
  title :: "pystr option"
  message :: "pystr option"
  error_type :: "pystr option"
  res_language :: "pystr option"
  languageCode :: "pystr option"
  isJapanese :: "bool option"
  isGenerated :: "bool option"
  availableLanguages :: "pystr list option"
  segments :: "'n segment list option"
  totalSegments :: "nat option"
  totalDuration :: "'n number option"
  source :: pystr

section \<open>The function\<close>

definition source_tag :: "deployment \<Rightarrow> pystr" where
  "source_tag dep =
     (case dep of Cloud_function \<Rightarrow> str ''gcp-cloud-function''
      | Script \<Rightarrow> str ''python-transcript-api'')"

text \<open>The test for Japanese transcripts in the first loop.\<close>

definition is_japanese :: "('n, 'm) transcript_scheme \<Rightarrow> bool" where
  "is_japanese t \<longleftrightarrow>
     language_code t = str ''ja'' \<or>
     contains (str ''japanese'') (lower (language t)) \<or>
     contains [0x65E5, 0x672C, 0x8A9E] (language t)"

definition make_info :: "'n transcript \<Rightarrow> transcript_info" where
  "make_info t =
     \<lparr>language = language t, language_code = language_code t,
      is_generated = is_generated t, is_translatable = is_translatable t\<rparr>"

text \<open>
  The first loop: every transcript is appended to \<open>available_transcripts\<close>, the Japanese
  ones to \<open>japanese_transcripts\<close> as well.
\<close>

fun collect ::
  "'n transcript list \<Rightarrow> transcript_info list \<times> 'n japanese_transcript list \<Rightarrow>
   transcript_info list \<times> 'n japanese_transcript list" where
  "collect [] (available_transcripts, japanese_transcripts) =
     (available_transcripts, japanese_transcripts)"
| "collect (t # rest) (available_transcripts, japanese_transcripts) =
     (let transcript_info = make_info t in
      collect rest
        (available_transcripts @ [transcript_info],
         if is_japanese t
         then japanese_transcripts @ [\<lparr>transcript = t, info = transcript_info\<rparr>]
         else japanese_transcripts))"

text \<open>
  The choice of \<open>selected_transcript\<close>; \<open>None\<close> is the branch that returns the result
  for a video without Japanese transcripts.
\<close>

definition selected_transcript :: "'n japanese_transcript list \<Rightarrow> 'n transcript option" where
  "selected_transcript japanese_transcripts =
     (if japanese_transcripts \<noteq> [] then
        (let manual_japanese = filter (\<lambda>jt. \<not> is_generated (info jt)) japanese_transcripts in
         if manual_japanese \<noteq> [] then Some (transcript (manual_japanese ! 0))
         else Some (transcript (japanese_transcripts ! 0)))
      else None)"

text \<open>
  Reading the fields of a snippet. The cloud function subscripts the snippet
  (\<open>snippet['start']\<close>): on a dictionary that gives the fields, on an object Python raises
  \<open>TypeError\<close>, the object not being subscriptable. The script reads attributes
  (\<open>snippet.start\<close>): on an object that gives the fields, on a dictionary Python raises
  \<open>AttributeError\<close>. The code point \<open>0x27\<close> is the apostrophe of Python's messages.
\<close>

definition read_snippet :: "deployment \<Rightarrow> 'n fetched_snippet \<Rightarrow> exception + 'n snippet" where
  "read_snippet dep snippet =
     (case dep of
        Cloud_function \<Rightarrow>
          (case snippet of
             Snippet_dict payload \<Rightarrow> Inr payload
           | Snippet_object class_name payload \<Rightarrow>
               Inl (Other_exception (str ''TypeError'')
                      ([0x27] @ class_name @ [0x27] @ str '' object is not subscriptable'')))
      | Script \<Rightarrow>
          (case snippet of
             Snippet_object class_name payload \<Rightarrow> Inr payload
           | Snippet_dict payload \<Rightarrow>
               Inl (Other_exception (str ''AttributeError'')
                      ([0x27] @ str ''dict'' @ [0x27] @ str '' object has no attribute '' @
                       [0x27] @ str ''start'' @ [0x27]))))"

text \<open>
  The second loop, over the snippets of the fetched transcript. The first statement of
  its body reads \<open>start\<close>; an exception raised there ends the loop and leaves the \<open>try\<close>
  body, and the segments collected so far are lost.
\<close>

fun make_segments ::
  "deployment \<Rightarrow> 'n::plus fetched_snippet list \<Rightarrow> 'n segment list \<Rightarrow>
   exception + 'n segment list" where
  "make_segments dep [] segs = Inr segs"
| "make_segments dep (snippet # rest) segs =
     (case read_snippet dep snippet of
        Inl e \<Rightarrow> Inl e
      | Inr payload \<Rightarrow>
          (let start' = start payload;
               duration' = duration payload;
               end' = start' + duration';
               text' = strip (text payload)
           in if text' \<noteq> [] \<and> \<not> (startswith text' (str ''['') \<and> endswith text' (str '']''))
              then make_segments dep rest
                     (segs @ [\<lparr>seg_start = start', seg_duration = duration', seg_end = end',
                               seg_text = text'\<rparr>])
              else make_segments dep rest segs))"

text \<open>
  The body of the \<open>try\<close> statement. The \<open>print\<close> calls write diagnostics and have no
  part in the value returned; they are left out. \<open>listed\<close> is the outcome of the library call
  \<open>YouTubeTranscriptApi().list(video_id)\<close>: the transcripts of the video in the order of the
  catalog, or the exception raised. An exception raised there, by \<open>fetch()\<close> or in the
  second loop leaves the body at once.
\<close>

definition try_body ::
  "deployment \<Rightarrow> exception + 'n::plus transcript list \<Rightarrow> pystr \<Rightarrow> exception + 'n result" where
  "try_body dep listed video_id =
     (case listed of
        Inl e \<Rightarrow> Inl e
      | Inr transcript_list \<Rightarrow>
          (case collect transcript_list ([], []) of
             (available_transcripts, japanese_transcripts) \<Rightarrow>
               (case selected_transcript japanese_transcripts of
                  None \<Rightarrow>
                    Inr \<lparr>available = False, videoId = video_id, title = None,
                         message = Some (str ''No Japanese transcripts available for this video''),
                         error_type = None, res_language = None, languageCode = None,
                         isJapanese = None, isGenerated = None,
                         availableLanguages =
                           Some (map (\<lambda>t. language t @ str '' ('' @ language_code t @ str '')'')
                                   available_transcripts),
                         segments = None, totalSegments = None, totalDuration = None,
                         source = source_tag dep\<rparr>
                | Some selected \<Rightarrow>
                    (case fetch selected of
                       Inl e \<Rightarrow> Inl e
                     | Inr fetched_transcript \<Rightarrow>
                         (case make_segments dep fetched_transcript [] of
                            Inl e \<Rightarrow> Inl e
                          | Inr segs \<Rightarrow>
                              Inr \<lparr>available = True, videoId = video_id,
                                   title = Some (str ''Video '' @ video_id),
                                   message = None, error_type = None,
                                   res_language = Some (language selected),
                                   languageCode = Some (language_code selected),
                                   isJapanese = Some True,
                                   isGenerated = Some (is_generated selected),
                                   availableLanguages =
                                     Some (map (\<lambda>jt. language (info jt) @
                                                  (if is_generated (info jt) then str '' (auto)''
                                                   else str '' (manual)''))
                                             japanese_transcripts),
                                   segments = Some segs,
                                   totalSegments = Some (length segs),
                                   totalDuration =
                                     Some (if segs \<noteq> [] then PyFloat (seg_end (last segs))
                                           else PyInt 0),
                                   source = source_tag dep\<rparr>)))))"

text \<open>The three \<open>except\<close> clauses, in the order of the source.\<close>

definition handler :: "deployment \<Rightarrow> pystr \<Rightarrow> exception \<Rightarrow> 'n result" where
  "handler dep video_id exn =
     (case exn of
        TranscriptsDisabled \<Rightarrow>
          \<lparr>available = False, videoId = video_id, title = None,
           message = Some (str ''Transcripts are disabled for this video''),
           error_type = None, res_language = None, languageCode = None, isJapanese = None,
           isGenerated = None, availableLanguages = None, segments = None,
           totalSegments = None, totalDuration = None, source = source_tag dep\<rparr>
      | NoTranscriptFound e \<Rightarrow>
          \<lparr>available = False, videoId = video_id, title = None,
           message = Some (str ''No transcript found: '' @ e),
           error_type = None, res_language = None, languageCode = None, isJapanese = None,
           isGenerated = None, availableLanguages = None, segments = None,
           totalSegments = None, totalDuration = None, source = source_tag dep\<rparr>
      | Other_exception type_name e \<Rightarrow>
          \<lparr>available = False, videoId = video_id, title = None,
           message = Some (str ''Error fetching transcript: '' @ e),
           error_type = (case dep of Cloud_function \<Rightarrow> Some type_name | Script \<Rightarrow> None),
           res_language = None, languageCode = None, isJapanese = None,
           isGenerated = None, availableLanguages = None, segments = None,
           totalSegments = None, totalDuration = None, source = source_tag dep\<rparr>)"

definition fetch_japanese_transcript ::
  "deployment \<Rightarrow> exception + 'n::plus transcript list \<Rightarrow> pystr \<Rightarrow> 'n result" where
  "fetch_japanese_transcript dep listed video_id =
     (case try_body dep listed video_id of
        Inr res \<Rightarrow> res
      | Inl exn \<Rightarrow> handler dep video_id exn)"


section \<open>Example inputs\<close>

text \<open>
  A catalogue with a manual and an automatic Japanese track, as in the end-to-end
  scenario: the manual track has a greeting and an applause marker. The automatic track
  cannot be fetched. A second automatic track is Japanese by its name only, and so is a
  track with an upper-case name; a track with the code \<open>JA\<close> and an English track are not
  Japanese at all. The snippets are objects of the library's class, but for one track that
  delivers a dictionary.
\<close>

definition ex_object :: "real snippet \<Rightarrow> real fetched_snippet" where
  "ex_object payload = Snippet_object (str ''FetchedTranscriptSnippet'') payload"

definition ex_manual :: "real transcript" where
  "ex_manual =
     \<lparr>language = str ''Japanese'', language_code = str ''ja'', is_generated = False,
      is_translatable = True,
      fetch =
        Inr [ex_object \<lparr>start = 0, duration = 2, text = [0x3053, 0x3093, 0x306B, 0x3061, 0x306F]\<rparr>,
             ex_object \<lparr>start = 2, duration = 1, text = str ''[applause]''\<rparr>]\<rparr>"

definition ex_auto :: "real transcript" where
  "ex_auto =
     \<lparr>language = str ''Japanese (auto-generated)'', language_code = str ''ja'',
      is_generated = True, is_translatable = True,
      fetch = Inl (NoTranscriptFound (str ''ja''))\<rparr>"

definition ex_auto_name :: "real transcript" where
  "ex_auto_name =
     \<lparr>language = [0x65E5, 0x672C, 0x8A9E], language_code = str ''jp'',
      is_generated = True, is_translatable = False,
      fetch = Inr [ex_object \<lparr>start = 1, duration = 2.5, text = str '' [partial] hello ''\<rparr>]\<rparr>"

definition ex_dict :: "real transcript" where
  "ex_dict =
     \<lparr>language = str ''Japanese'', language_code = str ''ja'', is_generated = False,
      is_translatable = False,
      fetch = Inr [Snippet_dict \<lparr>start = 1, duration = 2.5, text = str '' [partial] hello ''\<rparr>]\<rparr>"

definition ex_upper_name :: "real transcript" where
  "ex_upper_name =
     \<lparr>language = str ''Old JAPANESE'', language_code = str ''ojp'', is_generated = False,
      is_translatable = False, fetch = Inr []\<rparr>"

definition ex_upper_code :: "real transcript" where
  "ex_upper_code =
     \<lparr>language = str ''Nihongo'', language_code = str ''JA'', is_generated = False,
      is_translatable = False, fetch = Inr []\<rparr>"

definition ex_english :: "real transcript" where
  "ex_english =
     \<lparr>language = str ''English'', language_code = str ''en'', is_generated = False,
      is_translatable = True, fetch = Inr []\<rparr>"

section \<open>String operations\<close>

lemma startswith_iff: "startswith s p \<longleftrightarrow> (\<exists>r. s = p @ r)"
  by (simp add: startswith_def prefix_def)

lemma endswith_iff: "endswith s p \<longleftrightarrow> (\<exists>r. s = r @ p)"
  by (simp add: endswith_def suffix_def)

lemma contains_iff: "contains p s \<longleftrightarrow> (\<exists>a b. s = a @ p @ b)"
  by (simp add: contains_def sublist_def)

lemma strip_all_space:
  assumes "\<forall>c\<in>set s. isspace c"
  shows "strip s = []"
proof -
  have h: "dropWhile isspace s = []"
    using assms by (simp add: dropWhile_eq_Nil_conv)
  show ?thesis
    by (simp only: strip_def h rev.simps dropWhile.simps)
qed

lemma strip_examples:
  "strip (str ''  [music] '') = str ''[music]''"
  "strip (str '' [partial] hello '') = str ''[partial] hello''"
  "strip (str ''[applause]'') = str ''[applause]''"
  by (simp_all add: strip_def str_def isspace_def)

lemma bracket_examples:
  "startswith (str ''[music]'') (str ''['')" "endswith (str ''[music]'') (str '']'')"
  "startswith (str ''[applause]'') (str ''['')" "endswith (str ''[applause]'') (str '']'')"
  "\<not> endswith (str ''[partial] hello'') (str '']'')"
  "str ''[music]'' \<noteq> []" "str ''[partial] hello'' \<noteq> []" "str ''[applause]'' \<noteq> []"
  by (simp_all add: startswith_def endswith_def suffix_to_prefix str_def)

section \<open>The two loops\<close>

lemma collect_eq:
  "collect ts (av, ja) =
     (av @ map make_info ts,
      ja @ map (\<lambda>t. \<lparr>transcript = t, info = make_info t\<rparr>) (filter is_japanese ts))"
  by (induction ts arbitrary: av ja) (simp_all add: Let_def)

lemma read_snippet_payload:
  assumes "read_snippet dep x = Inr s"
  shows "s = snippet_payload x"
  using assms by (cases dep; cases x) (simp_all add: read_snippet_def)

lemma read_snippet_script: "read_snippet Script (Snippet_object c s) = Inr s"
  by (simp add: read_snippet_def)

lemma read_snippet_cloud:
  "read_snippet Cloud_function (Snippet_object c s) =
     Inl (Other_exception (str ''TypeError'')
            ([0x27] @ c @ [0x27] @ str '' object is not subscriptable''))"
  by (simp add: read_snippet_def)

lemma make_segments_acc:
  "make_segments dep sn segs =
     (case make_segments dep sn [] of Inl e \<Rightarrow> Inl e | Inr r \<Rightarrow> Inr (segs @ r))"
proof (induction sn arbitrary: segs)
  case Nil
  show ?case by simp
next
  case (Cons x sn)
  show ?case
  proof (cases "read_snippet dep x")
    case (Inl e)
    then show ?thesis by simp
  next
    case (Inr s)
    then show ?thesis
      using Cons.IH [of "segs @ [g]" for g] Cons.IH [of "[g]" for g] Cons.IH [of segs]
      by (simp add: Let_def split: sum.splits)
  qed
qed

lemma make_segments_raises:
  assumes "read_snippet dep x = Inl e"
  shows "make_segments dep (x # rest) segs = Inl e"
  using assms by simp

lemma make_segments_Cons:
  assumes "read_snippet dep x = Inr s"
  shows "make_segments dep (x # rest) [] =
     (case make_segments dep rest [] of
        Inl e \<Rightarrow> Inl e
      | Inr r \<Rightarrow>
          Inr ((if strip (text s) \<noteq> [] \<and>
                   \<not> (startswith (strip (text s)) (str ''['') \<and>
                      endswith (strip (text s)) (str '']''))
                then [\<lparr>seg_start = start s, seg_duration = duration s,
                       seg_end = start s + duration s, seg_text = strip (text s)\<rparr>]
                else []) @ r))"
  using assms make_segments_acc [of dep rest "[g]" for g]
  by (simp add: Let_def split: sum.splits)

lemma make_segments_Inr:
  assumes "make_segments dep sn [] = Inr segs"
  shows "(\<forall>x\<in>set sn. read_snippet dep x = Inr (snippet_payload x)) \<and>
     segs =
       map (\<lambda>s. \<lparr>seg_start = start s, seg_duration = duration s,
                  seg_end = start s + duration s, seg_text = strip (text s)\<rparr>)
         (filter (\<lambda>s. strip (text s) \<noteq> [] \<and>
                       \<not> (startswith (strip (text s)) (str ''['') \<and>
                          endswith (strip (text s)) (str '']'')))
            (map snippet_payload sn))"
  using assms
proof (induction sn arbitrary: segs)
  case Nil
  then show ?case by simp
next
  case (Cons x sn)
  show ?case
  proof (cases "read_snippet dep x")
    case (Inl e)
    with Cons.prems show ?thesis by simp
  next
    case (Inr s)
    then have s: "s = snippet_payload x"
      by (rule read_snippet_payload)
    from Cons.prems obtain r where r: "make_segments dep sn [] = Inr r"
      unfolding make_segments_Cons [OF Inr] by (auto split: sum.splits)
    note ih = Cons.IH [OF r]
    from Cons.prems show ?thesis
      unfolding make_segments_Cons [OF Inr] r using ih Inr s by auto
  qed
qed

lemma make_segments_readable:
  assumes "\<forall>x\<in>set sn. read_snippet dep x = Inr (snippet_payload x)"
  shows "make_segments dep sn [] =
     Inr (map (\<lambda>s. \<lparr>seg_start = start s, seg_duration = duration s,
                  seg_end = start s + duration s, seg_text = strip (text s)\<rparr>)
         (filter (\<lambda>s. strip (text s) \<noteq> [] \<and>
                       \<not> (startswith (strip (text s)) (str ''['') \<and>
                          endswith (strip (text s)) (str '']'')))
            (map snippet_payload sn)))"
  using assms
proof (induction sn)
  case Nil
  show ?case by simp
next
  case (Cons x sn)
  then have x: "read_snippet dep x = Inr (snippet_payload x)"
    and rest: "\<forall>y\<in>set sn. read_snippet dep y = Inr (snippet_payload y)"
    by simp_all
  show ?case
    unfolding make_segments_Cons [OF x] Cons.IH [OF rest] by simp
qed

lemma make_segments_set:
  assumes "make_segments dep sn [] = Inr segs" and "g \<in> set segs"
  obtains x where "x \<in> set sn" and "seg_start g = start (snippet_payload x)"
    and "seg_duration g = duration (snippet_payload x)"
    and "seg_end g = start (snippet_payload x) + duration (snippet_payload x)"
    and "seg_text g = strip (text (snippet_payload x))"
    and "strip (text (snippet_payload x)) \<noteq> []"
    and "\<not> (startswith (strip (text (snippet_payload x))) (str ''['') \<and>
            endswith (strip (text (snippet_payload x))) (str '']''))"
  using assms(2) unfolding make_segments_Inr [OF assms(1), THEN conjunct2] by auto

lemma script_segments:
  "make_segments Script (map (Snippet_object c) ss) [] =
     Inr (map (\<lambda>s. \<lparr>seg_start = start s, seg_duration = duration s,
                  seg_end = start s + duration s, seg_text = strip (text s)\<rparr>)
         (filter (\<lambda>s. strip (text s) \<noteq> [] \<and>
                       \<not> (startswith (strip (text s)) (str ''['') \<and>
                          endswith (strip (text s)) (str '']''))) ss))"
proof -
  have "\<forall>x\<in>set (map (Snippet_object c) ss). read_snippet Script x = Inr (snippet_payload x)"
    by (auto simp: read_snippet_script)
  then have "make_segments Script (map (Snippet_object c) ss) [] =
     Inr (map (\<lambda>s. \<lparr>seg_start = start s, seg_duration = duration s,
                  seg_end = start s + duration s, seg_text = strip (text s)\<rparr>)
         (filter (\<lambda>s. strip (text s) \<noteq> [] \<and>
                       \<not> (startswith (strip (text s)) (str ''['') \<and>
                          endswith (strip (text s)) (str '']'')))
            (map snippet_payload (map (Snippet_object c) ss))))"
    by (rule make_segments_readable)
  moreover have "map snippet_payload (map (Snippet_object c) ss) = ss"
    by (simp add: comp_def)
  ultimately show ?thesis
    by simp
qed

lemma cloud_function_raises:
  "make_segments Cloud_function (Snippet_object c s # rest) segs =
     Inl (Other_exception (str ''TypeError'')
            ([0x27] @ c @ [0x27] @ str '' object is not subscriptable''))"
  by (simp add: read_snippet_cloud)

section \<open>The selected transcript\<close>

lemma filter_first:
  "\<forall>u\<in>set pre. \<not> P u \<Longrightarrow> P t \<Longrightarrow> filter P (pre @ t # post) = t # filter P post"
  by (induction pre) simp_all

lemma selected_transcript_map:
  "selected_transcript (map (\<lambda>t. \<lparr>transcript = t, info = make_info t\<rparr>) js) =
     (case filter (\<lambda>t. \<not> is_generated t) js of
        m # _ \<Rightarrow> Some m
      | [] \<Rightarrow> (case js of j # _ \<Rightarrow> Some j | [] \<Rightarrow> None))"
proof -
  let ?e = "\<lambda>t::'a transcript. \<lparr>transcript = t, info = make_info t\<rparr>"
  have f: "filter (\<lambda>jt. \<not> is_generated (info jt)) (map ?e js) =
      map ?e (filter (\<lambda>t. \<not> is_generated t) js)"
    by (induction js) (simp_all add: make_info_def)
  show ?thesis
  proof (cases "filter (\<lambda>t. \<not> is_generated t) js")
    case Nil
    then show ?thesis
      unfolding selected_transcript_def Let_def f by (cases js) simp_all
  next
    case (Cons m ms)
    then have "js \<noteq> []" by auto
    with Cons show ?thesis
      unfolding selected_transcript_def Let_def f by simp
  qed
qed

lemma selected_eq:
  "selected_transcript (snd (collect ts ([], []))) =
     (case filter (\<lambda>u. is_japanese u \<and> \<not> is_generated u) ts of
        m # _ \<Rightarrow> Some m
      | [] \<Rightarrow> (case filter is_japanese ts of j # _ \<Rightarrow> Some j | [] \<Rightarrow> None))"
  by (simp add: collect_eq selected_transcript_map)

lemma selected_first_manual:
  assumes "filter (\<lambda>u. is_japanese u \<and> \<not> is_generated u) ts = t # rest"
  shows "selected_transcript (snd (collect ts ([], []))) = Some t"
  by (simp add: selected_eq assms)

lemma selected_first_japanese:
  assumes "filter (\<lambda>u. is_japanese u \<and> \<not> is_generated u) ts = []"
    and "filter is_japanese ts = t # rest"
  shows "selected_transcript (snd (collect ts ([], []))) = Some t"
  by (simp add: selected_eq assms)

lemma selected_none:
  assumes "\<forall>t\<in>set ts. \<not> is_japanese t"
  shows "selected_transcript (snd (collect ts ([], []))) = None"
proof -
  have "filter is_japanese ts = []"
    using assms by (simp add: filter_empty_conv)
  moreover have "filter (\<lambda>u. is_japanese u \<and> \<not> is_generated u) ts = []"
    using assms by (simp add: filter_empty_conv)
  ultimately show ?thesis
    by (simp add: selected_eq)
qed

lemma selected_in_set:
  assumes "selected_transcript (snd (collect ts ([], []))) = Some t"
  shows "t \<in> set ts"
proof (cases "filter (\<lambda>u. is_japanese u \<and> \<not> is_generated u) ts")
  case (Cons m ms)
  with assms have "m = t"
    by (simp add: selected_eq)
  with Cons have "t \<in> set (filter (\<lambda>u. is_japanese u \<and> \<not> is_generated u) ts)"
    by simp
  then show ?thesis
    by simp
next
  case Nil
  show ?thesis
  proof (cases "filter is_japanese ts")
    case (Cons j js)
    with assms Nil have "j = t"
      by (simp add: selected_eq)
    with Cons have "t \<in> set (filter is_japanese ts)"
      by simp
    then show ?thesis
      by simp
  next
    case none: Nil
    with assms Nil show ?thesis
      by (simp add: selected_eq)
  qed
qed

section \<open>The shape of the result\<close>

lemma list_raised: "fetch_japanese_transcript dep (Inl e) vid = handler dep vid e"
  by (simp add: fetch_japanese_transcript_def try_body_def)

lemma fetch_raised:
  assumes "selected_transcript (snd (collect ts ([], []))) = Some t" and "fetch t = Inl e"
  shows "fetch_japanese_transcript dep (Inr ts) vid = handler dep vid e"
  using assms by (simp add: fetch_japanese_transcript_def try_body_def collect_eq)

lemma loop_raised:
  assumes "selected_transcript (snd (collect ts ([], []))) = Some t" and "fetch t = Inr sn"
    and "make_segments dep sn [] = Inl e"
  shows "fetch_japanese_transcript dep (Inr ts) vid = handler dep vid e"
  using assms by (simp add: fetch_japanese_transcript_def try_body_def collect_eq)

lemma no_japanese:
  assumes "selected_transcript (snd (collect ts ([], []))) = None"
  shows "fetch_japanese_transcript dep (Inr ts) vid =
     \<lparr>available = False, videoId = vid, title = None,
      message = Some (str ''No Japanese transcripts available for this video''),
      error_type = None, res_language = None, languageCode = None,
      isJapanese = None, isGenerated = None,
      availableLanguages =
        Some (map (\<lambda>t. language t @ str '' ('' @ language_code t @ str '')'') ts),
      segments = None, totalSegments = None, totalDuration = None,
      source = source_tag dep\<rparr>"
proof -
  have "map (\<lambda>t. language t @ str '' ('' @ language_code t @ str '')'') (map make_info ts) =
      map (\<lambda>t. language t @ str '' ('' @ language_code t @ str '')'') ts"
    by (simp add: make_info_def)
  then show ?thesis
    using assms
    by (simp add: fetch_japanese_transcript_def try_body_def collect_eq)
qed

lemma found:
  assumes "selected_transcript (snd (collect ts ([], []))) = Some t" and "fetch t = Inr sn"
    and "make_segments dep sn [] = Inr segs"
  shows "fetch_japanese_transcript dep (Inr ts) vid =
     \<lparr>available = True, videoId = vid, title = Some (str ''Video '' @ vid),
      message = None, error_type = None,
      res_language = Some (language t), languageCode = Some (language_code t),
      isJapanese = Some True, isGenerated = Some (is_generated t),
      availableLanguages =
        Some (map (\<lambda>t. language t @ (if is_generated t then str '' (auto)'' else str '' (manual)''))
                (filter is_japanese ts)),
      segments = Some segs,
      totalSegments = Some (length segs),
      totalDuration = Some (if segs \<noteq> [] then PyFloat (seg_end (last segs)) else PyInt 0),
      source = source_tag dep\<rparr>"
  using assms
  by (simp add: fetch_japanese_transcript_def try_body_def collect_eq comp_def make_info_def)

lemma handler_not_available: "\<not> available (handler dep vid e)"
  by (cases e) (simp_all add: handler_def)

lemma available_cases:
  assumes "available (fetch_japanese_transcript dep listed vid)"
  obtains ts t sn segs where "listed = Inr ts"
    and "selected_transcript (snd (collect ts ([], []))) = Some t" and "fetch t = Inr sn"
    and "make_segments dep sn [] = Inr segs"
proof (cases listed)
  case (Inl e)
  with assms show ?thesis
    by (simp add: list_raised handler_not_available)
next
  case (Inr ts)
  show ?thesis
  proof (cases "selected_transcript (snd (collect ts ([], [])))")
    case None
    with assms Inr show ?thesis
      by (simp add: no_japanese)
  next
    case (Some t)
    show ?thesis
    proof (cases "fetch t")
      case (Inl e)
      with assms Inr Some show ?thesis
        by (simp add: fetch_raised handler_not_available)
    next
      case fetched: (Inr sn)
      show ?thesis
      proof (cases "make_segments dep sn []")
        case (Inl e)
        with assms Inr Some fetched show ?thesis
          by (simp add: loop_raised handler_not_available)
      next
        case made: (Inr segs)
        show ?thesis
          using Inr Some fetched made by (rule that)
      qed
    qed
  qed
qed



section \<open>The examples\<close>

lemma ex_facts:
  "is_japanese ex_manual" "\<not> is_generated ex_manual"
  "is_japanese ex_auto" "is_generated ex_auto"
  "is_japanese ex_auto_name" "is_generated ex_auto_name"
  "is_japanese ex_upper_name" "\<not> is_generated ex_upper_name" "\<not> is_japanese ex_upper_code"
  "\<not> is_japanese ex_english"
  by (simp_all add: is_japanese_def ex_manual_def ex_auto_def ex_auto_name_def ex_english_def
      ex_upper_name_def ex_upper_code_def contains_def lower_def lower_cp_def str_def
      sublist_code)

lemma ex_selected:
  "selected_transcript (snd (collect [ex_manual, ex_auto] ([], []))) = Some ex_manual"
  "selected_transcript (snd (collect [ex_english, ex_auto] ([], []))) = Some ex_auto"
  "selected_transcript (snd (collect [ex_english, ex_auto_name] ([], []))) = Some ex_auto_name"
  "selected_transcript (snd (collect [ex_upper_name] ([], []))) = Some ex_upper_name"
  unfolding selected_eq by (simp_all add: ex_facts)

lemma ex_fetch:
  "fetch ex_manual =
     Inr [ex_object \<lparr>start = 0, duration = 2, text = [0x3053, 0x3093, 0x306B, 0x3061, 0x306F]\<rparr>,
          ex_object \<lparr>start = 2, duration = 1, text = str ''[applause]''\<rparr>]"
  "fetch ex_auto = Inl (NoTranscriptFound (str ''ja''))"
  "fetch ex_auto_name =
     Inr [ex_object \<lparr>start = 1, duration = 2.5, text = str '' [partial] hello ''\<rparr>]"
  "fetch ex_upper_name = Inr []"
  by (simp_all add: ex_manual_def ex_auto_def ex_auto_name_def ex_upper_name_def)

lemma ex_segments:
  "make_segments Script
     [ex_object \<lparr>start = 0, duration = 2, text = [0x3053, 0x3093, 0x306B, 0x3061, 0x306F]\<rparr>,
      ex_object \<lparr>start = 2, duration = 1, text = str ''[applause]''\<rparr>] [] =
     Inr [\<lparr>seg_start = 0, seg_duration = 2, seg_end = 2,
           seg_text = [0x3053, 0x3093, 0x306B, 0x3061, 0x306F]\<rparr>]"
  "make_segments Script
     [ex_object \<lparr>start = 1, duration = 2.5, text = str '' [partial] hello ''\<rparr>] [] =
     Inr [\<lparr>seg_start = 1, seg_duration = 2.5, seg_end = 3.5,
           seg_text = str ''[partial] hello''\<rparr>]"
  "make_segments Cloud_function
     [ex_object \<lparr>start = 1, duration = 2.5, text = str '' [partial] hello ''\<rparr>] [] =
     Inl (Other_exception (str ''TypeError'')
            ([0x27] @ str ''FetchedTranscriptSnippet'' @ [0x27] @
             str '' object is not subscriptable''))"
proof -
  have g: "strip [0x3053, 0x3093, 0x306B, 0x3061, 0x306F] = [0x3053, 0x3093, 0x306B, 0x3061, 0x306F]"
    by (simp add: strip_def isspace_def)
  have k: "\<not> startswith [0x3053, 0x3093, 0x306B, 0x3061, 0x306F] (str ''['')"
    by (simp add: startswith_def str_def)
  show "make_segments Script
     [ex_object \<lparr>start = 0, duration = 2, text = [0x3053, 0x3093, 0x306B, 0x3061, 0x306F]\<rparr>,
      ex_object \<lparr>start = 2, duration = 1, text = str ''[applause]''\<rparr>] [] =
     Inr [\<lparr>seg_start = 0, seg_duration = 2, seg_end = 2,
           seg_text = [0x3053, 0x3093, 0x306B, 0x3061, 0x306F]\<rparr>]"
    by (simp add: ex_object_def read_snippet_script Let_def g k strip_examples bracket_examples)
  show "make_segments Script
     [ex_object \<lparr>start = 1, duration = 2.5, text = str '' [partial] hello ''\<rparr>] [] =
     Inr [\<lparr>seg_start = 1, seg_duration = 2.5, seg_end = 3.5,
           seg_text = str ''[partial] hello''\<rparr>]"
    by (simp add: ex_object_def read_snippet_script Let_def strip_examples bracket_examples)
  show "make_segments Cloud_function
     [ex_object \<lparr>start = 1, duration = 2.5, text = str '' [partial] hello ''\<rparr>] [] =
     Inl (Other_exception (str ''TypeError'')
            ([0x27] @ str ''FetchedTranscriptSnippet'' @ [0x27] @
             str '' object is not subscriptable''))"
    by (simp add: ex_object_def read_snippet_cloud)
qed

lemma ex_available:
  "available (fetch_japanese_transcript Script (Inr [ex_manual, ex_auto]) vid)"
  by (simp only: found [OF ex_selected(1) ex_fetch(1) ex_segments(1)]) simp

lemma scenario_found:
  "fetch_japanese_transcript Script (Inr [ex_manual, ex_auto]) vid =
     \<lparr>available = True, videoId = vid, title = Some (str ''Video '' @ vid),
      message = None, error_type = None,
      res_language = Some (str ''Japanese''), languageCode = Some (str ''ja''),
      isJapanese = Some True, isGenerated = Some False,
      availableLanguages =
        Some [str ''Japanese (manual)'', str ''Japanese (auto-generated) (auto)''],
      segments =
        Some [\<lparr>seg_start = 0, seg_duration = 2, seg_end = 2,
               seg_text = [0x3053, 0x3093, 0x306B, 0x3061, 0x306F]\<rparr>],
      totalSegments = Some 1, totalDuration = Some (PyFloat 2),
      source = str ''python-transcript-api''\<rparr>"
proof -
  have f: "filter is_japanese [ex_manual, ex_auto] = [ex_manual, ex_auto]"
    by (simp add: ex_facts)
  have l: "language ex_manual = str ''Japanese''" "language_code ex_manual = str ''ja''"
    "language ex_auto = str ''Japanese (auto-generated)''"
    by (simp_all add: ex_manual_def ex_auto_def)
  show ?thesis
    unfolding found [OF ex_selected(1) ex_fetch(1) ex_segments(1)] f
    by (simp add: ex_facts l source_tag_def) (simp add: str_def)
qed

lemma scenario_partial:
  "fetch_japanese_transcript Script (Inr [ex_english, ex_auto_name]) vid =
     \<lparr>available = True, videoId = vid, title = Some (str ''Video '' @ vid),
      message = None, error_type = None,
      res_language = Some [0x65E5, 0x672C, 0x8A9E], languageCode = Some (str ''jp''),
      isJapanese = Some True, isGenerated = Some True,
      availableLanguages = Some [[0x65E5, 0x672C, 0x8A9E] @ str '' (auto)''],
      segments =
        Some [\<lparr>seg_start = 1, seg_duration = 2.5, seg_end = 3.5,
               seg_text = str ''[partial] hello''\<rparr>],
      totalSegments = Some 1, totalDuration = Some (PyFloat 3.5),
      source = str ''python-transcript-api''\<rparr>"
proof -
  have f: "filter is_japanese [ex_english, ex_auto_name] = [ex_auto_name]"
    by (simp add: ex_facts)
  have l: "language ex_auto_name = [0x65E5, 0x672C, 0x8A9E]"
    "language_code ex_auto_name = str ''jp''"
    by (simp_all add: ex_auto_name_def)
  show ?thesis
    unfolding found [OF ex_selected(3) ex_fetch(3) ex_segments(2)] f
    by (simp add: ex_facts l source_tag_def)
qed

lemma scenario_cloud_function:
  "fetch_japanese_transcript Cloud_function (Inr [ex_english, ex_auto_name]) vid =
     \<lparr>available = False, videoId = vid, title = None,
      message =
        Some (str ''Error fetching transcript: '' @ [0x27] @ str ''FetchedTranscriptSnippet'' @
              [0x27] @ str '' object is not subscriptable''),
      error_type = Some (str ''TypeError''), res_language = None, languageCode = None,
      isJapanese = None, isGenerated = None, availableLanguages = None, segments = None,
      totalSegments = None, totalDuration = None, source = str ''gcp-cloud-function''\<rparr>"
  unfolding loop_raised [OF ex_selected(3) ex_fetch(3) ex_segments(3)]
  by (simp add: handler_def source_tag_def)

section \<open>Selection of the Japanese transcript\<close>

text \<open>
  C1. When the catalogue has a manual Japanese transcript, the one selected is the first
  manual Japanese transcript in catalogue order, whatever automatic ones stand before or
  after it. When all Japanese transcripts of the catalogue are automatic, the one selected
  is the first Japanese transcript in catalogue order.
\<close>

theorem selector_choice:
  "(ts = pre @ t # post \<and> is_japanese t \<and> \<not> is_generated t \<and>
    (\<forall>u\<in>set pre. \<not> (is_japanese u \<and> \<not> is_generated u))
      \<longrightarrow> selected_transcript (snd (collect ts ([], []))) = Some t) \<and>
   (ts = pre @ t # post \<and> is_japanese t \<and> (\<forall>u\<in>set pre. \<not> is_japanese u) \<and>
    (\<forall>u\<in>set ts. is_japanese u \<longrightarrow> is_generated u)
      \<longrightarrow> selected_transcript (snd (collect ts ([], []))) = Some t)"
proof (intro conjI impI)
  assume a: "ts = pre @ t # post \<and> is_japanese t \<and> \<not> is_generated t \<and>
    (\<forall>u\<in>set pre. \<not> (is_japanese u \<and> \<not> is_generated u))"
  have "filter (\<lambda>u. is_japanese u \<and> \<not> is_generated u) ts =
      t # filter (\<lambda>u. is_japanese u \<and> \<not> is_generated u) post"
    using a filter_first [of pre "\<lambda>u. is_japanese u \<and> \<not> is_generated u" t post] by simp
  then show "selected_transcript (snd (collect ts ([], []))) = Some t"
    by (rule selected_first_manual)
next
  assume a: "ts = pre @ t # post \<and> is_japanese t \<and> (\<forall>u\<in>set pre. \<not> is_japanese u) \<and>
    (\<forall>u\<in>set ts. is_japanese u \<longrightarrow> is_generated u)"
  have m: "filter (\<lambda>u. is_japanese u \<and> \<not> is_generated u) ts = []"
    using a by (auto simp: filter_empty_conv)
  have j: "filter is_japanese ts = t # filter is_japanese post"
    using a filter_first [of pre is_japanese t post] by simp
  show "selected_transcript (snd (collect ts ([], []))) = Some t"
    using m j by (rule selected_first_japanese)
qed

theorem selector_choice_witness:
  "is_japanese ex_manual \<and> \<not> is_generated ex_manual \<and> is_generated ex_auto \<and>
   selected_transcript (snd (collect [ex_auto, ex_manual, ex_auto_name] ([], []))) =
     Some ex_manual \<and>
   \<not> is_japanese ex_english \<and> is_japanese ex_auto \<and> is_generated ex_auto_name \<and>
   selected_transcript (snd (collect [ex_english, ex_auto, ex_auto_name] ([], []))) =
     Some ex_auto"
  using selector_choice [of "[ex_auto, ex_manual, ex_auto_name]" "[ex_auto]" ex_manual
      "[ex_auto_name]"]
    selector_choice [of "[ex_english, ex_auto, ex_auto_name]" "[ex_english]" ex_auto
      "[ex_auto_name]"]
  by (simp add: ex_facts)

lemma is_japanese_iff:
  "is_japanese t \<longleftrightarrow>
     language_code t = str ''ja'' \<or>
     (\<exists>a b. lower (language t) = a @ str ''japanese'' @ b) \<or>
     (\<exists>a b. language t = a @ [0x65E5, 0x672C, 0x8A9E] @ b)"
  by (simp add: is_japanese_def contains_iff)

text \<open>
  C2. The transcripts the first loop puts into \<open>japanese_transcripts\<close> are, in catalogue
  order, exactly those whose language code is the string \<open>ja\<close>, or whose lower-cased
  language name has \<open>japanese\<close> as a substring, or whose language name has the three
  code points U+65E5 U+672C U+8A9E as a substring.
\<close>

theorem japanese_candidates:
  "map transcript (snd (collect ts ([], []))) =
     filter (\<lambda>t. language_code t = str ''ja'' \<or>
                 (\<exists>a b. lower (language t) = a @ str ''japanese'' @ b) \<or>
                 (\<exists>a b. language t = a @ [0x65E5, 0x672C, 0x8A9E] @ b)) ts"
  unfolding is_japanese_iff [symmetric]
  by (simp add: collect_eq comp_def)

theorem japanese_candidates_witness:
  "map transcript
     (snd (collect [ex_english, ex_upper_code, ex_auto_name, ex_manual, ex_upper_name] ([], []))) =
     [ex_auto_name, ex_manual, ex_upper_name]"
proof -
  have "map transcript
      (snd (collect [ex_english, ex_upper_code, ex_auto_name, ex_manual, ex_upper_name] ([], []))) =
      filter is_japanese [ex_english, ex_upper_code, ex_auto_name, ex_manual, ex_upper_name]"
    using japanese_candidates [of "[ex_english, ex_upper_code, ex_auto_name, ex_manual, ex_upper_name]"]
    by (simp only: is_japanese_iff [symmetric])
  also have "\<dots> = [ex_auto_name, ex_manual, ex_upper_name]"
    by (simp add: ex_facts)
  finally show ?thesis .
qed

section \<open>Segments\<close>

text \<open>
  C3, where the cloud function breaks it. The claim has a snippet whose stripped text is
  \<open>[partial] hello\<close> retained. From a snippet object of the library with that text the loop
  of the script makes the segment, as \<open>script_segments\<close> says of every sequence of such
  objects. The loop of the cloud function subscripts the object, raises \<open>TypeError\<close> and
  retains nothing.
\<close>

theorem cloud_function_retains_nothing:
  "make_segments Cloud_function
     [ex_object \<lparr>start = 1, duration = 2.5, text = str '' [partial] hello ''\<rparr>] [] =
     Inl (Other_exception (str ''TypeError'')
            ([0x27] @ str ''FetchedTranscriptSnippet'' @ [0x27] @
             str '' object is not subscriptable'')) \<and>
   make_segments Script
     [ex_object \<lparr>start = 1, duration = 2.5, text = str '' [partial] hello ''\<rparr>] [] =
     Inr [\<lparr>seg_start = 1, seg_duration = 2.5, seg_end = 3.5,
           seg_text = str ''[partial] hello''\<rparr>]"
  by (intro conjI) (rule ex_segments)+

text \<open>
  C4, where the cloud function breaks it. The claim has a segment emitted for a snippet
  whose stripped text is not empty and not wrapped in brackets, with \<open>end\<close> equal to
  \<open>start + duration\<close>. For a track whose one snippet is such an object of the library, with
  start 1.0 and duration 2.5, the script returns the segment with \<open>end\<close> 3.5; the cloud
  function returns the result of its last handler, which has no segments.
\<close>

theorem cloud_function_emits_no_segment:
  "fetch_japanese_transcript Cloud_function (Inr [ex_english, ex_auto_name]) (str ''abc'') =
     \<lparr>available = False, videoId = str ''abc'', title = None,
      message =
        Some (str ''Error fetching transcript: '' @ [0x27] @ str ''FetchedTranscriptSnippet'' @
              [0x27] @ str '' object is not subscriptable''),
      error_type = Some (str ''TypeError''), res_language = None, languageCode = None,
      isJapanese = None, isGenerated = None, availableLanguages = None, segments = None,
      totalSegments = None, totalDuration = None, source = str ''gcp-cloud-function''\<rparr> \<and>
   segments (fetch_japanese_transcript Script (Inr [ex_english, ex_auto_name]) (str ''abc'')) =
     Some [\<lparr>seg_start = 1, seg_duration = 2.5, seg_end = 3.5,
            seg_text = str ''[partial] hello''\<rparr>]"
  by (simp add: scenario_cloud_function scenario_partial)

text \<open>
  C9. When every snippet has a non-negative \<open>start\<close> and \<open>duration\<close>, every segment of a
  result with \<open>available\<close> true has \<open>start \<le> end\<close>, and its text is not empty and does not
  both start with \<open>[\<close> and end with \<open>]\<close>. The numbers are those of any ordered commutative
  monoid, the reals among them.
\<close>

theorem found_segments_invariant:
  fixes listed :: "exception + ('n::ordered_comm_monoid_add) transcript list"
  assumes "available (fetch_japanese_transcript dep listed vid)"
    and "\<forall>ts. listed = Inr ts \<longrightarrow>
           (\<forall>t\<in>set ts. \<forall>sn. fetch t = Inr sn \<longrightarrow>
              (\<forall>x\<in>set sn. 0 \<le> start (snippet_payload x) \<and> 0 \<le> duration (snippet_payload x)))"
  shows "\<exists>segs. segments (fetch_japanese_transcript dep listed vid) = Some segs \<and>
           (\<forall>g\<in>set segs. seg_start g \<le> seg_end g \<and> seg_text g \<noteq> [] \<and>
              \<not> ((\<exists>r. seg_text g = str ''['' @ r) \<and> (\<exists>r. seg_text g = r @ str '']'')))"
proof -
  obtain ts t sn segs where l: "listed = Inr ts"
    and sel: "selected_transcript (snd (collect ts ([], []))) = Some t" and f: "fetch t = Inr sn"
    and m: "make_segments dep sn [] = Inr segs"
    using assms(1) by (rule available_cases)
  have "t \<in> set ts"
    using sel by (rule selected_in_set)
  with assms(2) l f
  have nonneg: "\<forall>x\<in>set sn. 0 \<le> start (snippet_payload x) \<and> 0 \<le> duration (snippet_payload x)"
    by blast
  have segs: "segments (fetch_japanese_transcript dep listed vid) = Some segs"
    unfolding l found [OF sel f m] by simp
  have "seg_start g \<le> seg_end g \<and> seg_text g \<noteq> [] \<and>
      \<not> ((\<exists>r. seg_text g = str ''['' @ r) \<and> (\<exists>r. seg_text g = r @ str '']''))"
    if "g \<in> set segs" for g
  proof -
    from m that obtain x where x: "x \<in> set sn" "seg_start g = start (snippet_payload x)"
      "seg_end g = start (snippet_payload x) + duration (snippet_payload x)"
      "seg_text g = strip (text (snippet_payload x))"
      "strip (text (snippet_payload x)) \<noteq> []"
      "\<not> (startswith (strip (text (snippet_payload x))) (str ''['') \<and>
          endswith (strip (text (snippet_payload x))) (str '']''))"
      by (rule make_segments_set)
    from nonneg x(1) have "0 \<le> duration (snippet_payload x)"
      by blast
    then have "start (snippet_payload x) \<le> start (snippet_payload x) + duration (snippet_payload x)"
      by (rule add_increasing2) simp
    with x show ?thesis
      by (simp add: startswith_iff endswith_iff)
  qed
  with segs show ?thesis
    by blast
qed

theorem found_segments_invariant_witness:
  "available (fetch_japanese_transcript Script (Inr [ex_manual, ex_auto]) (str ''abc'')) \<and>
   (\<exists>segs. segments (fetch_japanese_transcript Script (Inr [ex_manual, ex_auto]) (str ''abc'')) =
             Some segs \<and>
      (\<forall>g\<in>set segs. seg_start g \<le> seg_end g \<and> seg_text g \<noteq> [] \<and>
         \<not> ((\<exists>r. seg_text g = str ''['' @ r) \<and> (\<exists>r. seg_text g = r @ str '']''))))"
proof -
  have "\<forall>ts. (Inr [ex_manual, ex_auto] :: exception + real transcript list) = Inr ts \<longrightarrow>
      (\<forall>t\<in>set ts. \<forall>sn. fetch t = Inr sn \<longrightarrow>
         (\<forall>x\<in>set sn. 0 \<le> start (snippet_payload x) \<and> 0 \<le> duration (snippet_payload x)))"
    by (simp add: ex_fetch ex_object_def)
  then show ?thesis
    by (intro conjI ex_available found_segments_invariant [OF ex_available])
qed

section \<open>Results\<close>



text \<open>
  C10. A result with \<open>available\<close> true has the key \<open>title\<close>, and its value is \<open>Video \<close>
  followed by the video id.
\<close>

theorem found_has_title:
  "available (fetch_japanese_transcript dep listed vid) \<Longrightarrow>
   title (fetch_japanese_transcript dep listed vid) = Some (str ''Video '' @ vid)"
proof -
  assume "available (fetch_japanese_transcript dep listed vid)"
  then obtain ts t sn segs where l: "listed = Inr ts"
    and sel: "selected_transcript (snd (collect ts ([], []))) = Some t" and f: "fetch t = Inr sn"
    and m: "make_segments dep sn [] = Inr segs"
    by (rule available_cases)
  show ?thesis
    unfolding l found [OF sel f m] by simp
qed

theorem found_has_title_witness:
  "available (fetch_japanese_transcript Script (Inr [ex_manual, ex_auto]) (str ''abc'')) \<and>
   title (fetch_japanese_transcript Script (Inr [ex_manual, ex_auto]) (str ''abc'')) =
     Some (str ''Video abc'')"
  using found_has_title [OF ex_available, of "str ''abc''"] ex_available [of "str ''abc''"]
  by (simp add: str_def)

text \<open>
  C6. When no transcript of the catalogue is Japanese, the result has \<open>available\<close> false,
  the message \<open>No Japanese transcripts available for this video\<close>, and
  \<open>availableLanguages\<close> with one entry \<open>language (language_code)\<close> for every transcript of
  the catalogue, in catalogue order.
\<close>

theorem no_japanese_result:
  "(\<forall>t\<in>set ts. \<not> is_japanese t) \<Longrightarrow>
   fetch_japanese_transcript dep (Inr ts) vid =
     \<lparr>available = False, videoId = vid, title = None,
      message = Some (str ''No Japanese transcripts available for this video''),
      error_type = None, res_language = None, languageCode = None,
      isJapanese = None, isGenerated = None,
      availableLanguages =
        Some (map (\<lambda>t. language t @ str '' ('' @ language_code t @ str '')'') ts),
      segments = None, totalSegments = None, totalDuration = None,
      source = source_tag dep\<rparr>"
  by (rule no_japanese) (rule selected_none)

theorem no_japanese_result_witness:
  "\<not> is_japanese ex_english \<and>
   fetch_japanese_transcript Script (Inr [ex_english]) (str ''abc'') =
     \<lparr>available = False, videoId = str ''abc'', title = None,
      message = Some (str ''No Japanese transcripts available for this video''),
      error_type = None, res_language = None, languageCode = None,
      isJapanese = None, isGenerated = None,
      availableLanguages = Some [str ''English (en)''],
      segments = None, totalSegments = None, totalDuration = None,
      source = str ''python-transcript-api''\<rparr>"
proof -
  have l: "language ex_english @ str '' ('' @ language_code ex_english @ str '')'' =
      str ''English (en)''"
    by (simp add: ex_english_def str_def)
  show ?thesis
    using no_japanese_result [of "[ex_english]" Script "str ''abc''"] l
    by (simp add: ex_facts source_tag_def)
qed

section \<open>Exceptions\<close>

text \<open>
  C8. When the catalogue call raises \<open>TranscriptsDisabled\<close>, the result has \<open>available\<close>
  false, the message \<open>Transcripts are disabled for this video\<close> and no
  \<open>availableLanguages\<close> key. Every exception of the catalogue call or of \<open>fetch()\<close> is
  turned by a handler into a result with \<open>available\<close> false and a message; none leaves
  the function.
\<close>

theorem errors_become_results:
  "fetch_japanese_transcript dep (Inl TranscriptsDisabled) vid =
     \<lparr>available = False, videoId = vid, title = None,
      message = Some (str ''Transcripts are disabled for this video''),
      error_type = None, res_language = None, languageCode = None, isJapanese = None,
      isGenerated = None, availableLanguages = None, segments = None,
      totalSegments = None, totalDuration = None, source = source_tag dep\<rparr> \<and>
   fetch_japanese_transcript dep (Inl e) vid = handler dep vid e \<and>
   (selected_transcript (snd (collect ts ([], []))) = Some t \<and> fetch t = Inl e \<longrightarrow>
      fetch_japanese_transcript dep (Inr ts) vid = handler dep vid e) \<and>
   \<not> available (handler dep vid e) \<and> (\<exists>m. message (handler dep vid e) = Some m)"
proof (intro conjI impI)
  show "fetch_japanese_transcript dep (Inl TranscriptsDisabled) vid =
     \<lparr>available = False, videoId = vid, title = None,
      message = Some (str ''Transcripts are disabled for this video''),
      error_type = None, res_language = None, languageCode = None, isJapanese = None,
      isGenerated = None, availableLanguages = None, segments = None,
      totalSegments = None, totalDuration = None, source = source_tag dep\<rparr>"
    by (simp add: list_raised handler_def)
next
  show "fetch_japanese_transcript dep (Inl e) vid = handler dep vid e"
    by (rule list_raised)
next
  assume "selected_transcript (snd (collect ts ([], []))) = Some t \<and> fetch t = Inl e"
  then show "fetch_japanese_transcript dep (Inr ts) vid = handler dep vid e"
    by (simp add: fetch_raised)
next
  show "\<not> available (handler dep vid e)"
    by (rule handler_not_available)
next
  show "\<exists>m. message (handler dep vid e) = Some m"
    by (cases e) (simp_all add: handler_def)
qed

theorem errors_become_results_witness:
  "fetch_japanese_transcript Cloud_function (Inl TranscriptsDisabled) (str ''abc'') =
     (\<lparr>available = False, videoId = str ''abc'', title = None,
       message = Some (str ''Transcripts are disabled for this video''),
       error_type = None, res_language = None, languageCode = None, isJapanese = None,
       isGenerated = None, availableLanguages = None, segments = None,
       totalSegments = None, totalDuration = None,
       source = str ''gcp-cloud-function''\<rparr> :: real result) \<and>
   selected_transcript (snd (collect [ex_english, ex_auto] ([], []))) = Some ex_auto \<and>
   fetch ex_auto = Inl (NoTranscriptFound (str ''ja'')) \<and>
   fetch_japanese_transcript Cloud_function (Inr [ex_english, ex_auto]) (str ''abc'') =
     handler Cloud_function (str ''abc'') (NoTranscriptFound (str ''ja'')) \<and>
   \<not> available
       (handler Cloud_function (str ''abc'') (NoTranscriptFound (str ''ja'')) :: real result)"
proof -
  note th = errors_become_results [where dep = Cloud_function and vid = "str ''abc''"
      and ts = "[ex_english, ex_auto]" and t = ex_auto and e = "NoTranscriptFound (str ''ja'')"]
  have 1: "fetch_japanese_transcript Cloud_function (Inl TranscriptsDisabled) (str ''abc'') =
     (\<lparr>available = False, videoId = str ''abc'', title = None,
       message = Some (str ''Transcripts are disabled for this video''),
       error_type = None, res_language = None, languageCode = None, isJapanese = None,
       isGenerated = None, availableLanguages = None, segments = None,
       totalSegments = None, totalDuration = None,
       source = str ''gcp-cloud-function''\<rparr> :: real result)"
    using th [THEN conjunct1] by (simp add: source_tag_def)
  have 2: "fetch_japanese_transcript Cloud_function (Inr [ex_english, ex_auto]) (str ''abc'') =
     handler Cloud_function (str ''abc'') (NoTranscriptFound (str ''ja''))"
    by (rule th [THEN conjunct2, THEN conjunct2, THEN conjunct1, THEN mp])
      (intro conjI ex_selected ex_fetch)
  have 3: "\<not> available
       (handler Cloud_function (str ''abc'') (NoTranscriptFound (str ''ja'')) :: real result)"
    by (rule th [THEN conjunct2, THEN conjunct2, THEN conjunct2, THEN conjunct1])
  show ?thesis
    by (intro conjI 1 2 3 ex_selected ex_fetch)
qed




end
